theory Spec2Isabelle
  imports Main
begin

section \<open>Data model of \<open>testConfigManager.ts\<close>\<close>

text \<open>
  The module reads three interfaces that it imports: \<open>ITestItem\<close> (only its \<open>uri\<close>),
  \<open>IExecutionConfig\<close> (only its optional \<open>name\<close>; everything else is an opaque
  bag of execution parameters, the type parameter \<open>'p\<close>) and the deprecated document
  \<open>ITestConfig\<close> with its two groups. A property that JSON may leave out is an
  \<open>option\<close>: \<open>None\<close> is JavaScript's \<open>undefined\<close>. The field \<open>default\<close>
  of a group is called \<open>default_name\<close> here, since \<open>default\<close> is a constant of HOL.
\<close>

record ITestItem =
  uri :: string

record Uri =
  fsPath :: string

record WorkspaceFolder =
  uri :: Uri

record 'p IExecutionConfig =
  name :: "string option"
  params :: 'p

record 'p IExecutionConfigGroup =
  default_name :: "string option"
  items :: "'p IExecutionConfig list"

record 'p ITestConfig =
  run :: "'p IExecutionConfigGroup option"
  debug :: "'p IExecutionConfigGroup option"

text \<open>The local interface \<open>IRunConfigQuickPick\<close> of \<open>selectQuickPick\<close>.\<close>

record 'p IRunConfigQuickPick =
  label :: string
  detail :: string
  item :: "'p IExecutionConfig"

text \<open>
  What a rejected promise carries: a \<open>TypeError\<close> of the runtime (a property read on
  \<open>undefined\<close>), the \<open>SyntaxError\<close> of \<open>JSON.parse\<close>, a failure of the file
  system, or an \<open>Error\<close> that the module throws itself, with its message.
\<close>

datatype error = TypeError | SyntaxError | FsError | Error string

text \<open>
  The user-visible effects, in the order in which they happen: a warning of
  \<open>window.showWarningMessage\<close>, and a prompt of \<open>window.showQuickPick\<close> with the
  entries offered and the placeholder.
\<close>

datatype 'p event =
  ShowWarningMessage string
| ShowQuickPick "'p IRunConfigQuickPick list" string

text \<open>
  The collaborators of the module, none of which is part of it, each as the function of
  its arguments that it is during one call: the workspace
  (\<open>Uri.parse\<close>, \<open>workspace.getWorkspaceFolder\<close>, the value of \<open>config\<close> in the section
  \<open>java.test\<close> of \<open>workspace.getConfiguration\<close>), the file system (\<open>fse.pathExists\<close>,
  \<open>fse.readFile\<close>), the library functions \<open>JSON.parse\<close>, \<open>JSON.stringify\<close> and
  \<open>path.join\<close>, and the user's answer to a prompt.
\<close>

record 'p env =
  Uri_parse :: "string \<Rightarrow> Uri"
  getWorkspaceFolder :: "Uri \<Rightarrow> WorkspaceFolder option"
  getConfiguration :: "Uri \<Rightarrow> 'p IExecutionConfig list option"
  pathExists :: "string \<Rightarrow> bool"
  readFile :: "string \<Rightarrow> error + string"
  JSON_parse :: "string \<Rightarrow> error + 'p ITestConfig"
  JSON_stringify :: "'p IExecutionConfig \<Rightarrow> string"
  path_join :: "string \<Rightarrow> string \<Rightarrow> string"
  showQuickPick :: "'p IRunConfigQuickPick list \<Rightarrow> string \<Rightarrow> 'p IRunConfigQuickPick option"

text \<open>The instance state of the class: one field, set by the constructor and read-only.\<close>

record TestConfigManager =
  configRelativePath :: string

definition TestConfigManager_new :: "'p env \<Rightarrow> TestConfigManager" where
  "TestConfigManager_new e = \<lparr>configRelativePath = path_join e ''.vscode'' ''launch.test.json''\<rparr>"

definition configPath :: "TestConfigManager \<Rightarrow> string" where
  "configPath this = configRelativePath this"

section \<open>JavaScript's conversions\<close>

text \<open>A string or \<open>undefined\<close> in a condition: \<open>undefined\<close> and the empty string are falsy.\<close>

fun truthy :: "string option \<Rightarrow> bool" where
  "truthy None = False"
| "truthy (Some s) = (s \<noteq> [])"

text \<open>A non-negative integer in a template literal: its decimal digits.\<close>

definition digit_char :: "nat \<Rightarrow> char" where
  "digit_char d = ''0123456789'' ! d"

fun number_toString :: "nat \<Rightarrow> string" where
  "number_toString n =
     (if n < 10 then [digit_char n]
      else number_toString (n div 10) @ [digit_char (n mod 10)])"

declare number_toString.simps [simp del]

text \<open>A string or \<open>undefined\<close> in a template literal.\<close>

fun template_string :: "string option \<Rightarrow> string" where
  "template_string None = ''undefined''"
| "template_string (Some s) = s"

section \<open>\<open>selectQuickPick\<close>\<close>

text \<open>
  The \<open>for\<close> loop of \<open>selectQuickPick\<close>, with its counter \<open>i\<close> and the array
  \<open>choices\<close> that it appends to. The non-null assertion \<open>configs[i].name!\<close> is
  \<open>the\<close>, read only where the name is truthy.
\<close>

function choices_loop ::
  "'p env \<Rightarrow> 'p IExecutionConfig list \<Rightarrow> nat \<Rightarrow> 'p IRunConfigQuickPick list
     \<Rightarrow> 'p IRunConfigQuickPick list" where
  "choices_loop e configs i choices =
     (if i < length configs then
        choices_loop e configs (i + 1)
          (choices @
             [\<lparr>label = (if truthy (name (configs ! i))
                        then the (name (configs ! i))
                        else ''Configuration #'' @ number_toString (i + 1)),
               detail = JSON_stringify e (configs ! i),
               item = configs ! i\<rparr>])
      else choices)"
  by pat_completeness auto
termination
  by (relation "measure (\<lambda>(e, configs, i, choices). length configs - i)") auto

declare choices_loop.simps [simp del]

text \<open>
  Every function of the class is \<open>async\<close>: its outcome is the list of effects it had
  and either the error of the rejected promise (\<open>Inl\<close>) or the value of the fulfilled
  one (\<open>Inr\<close>).
\<close>

definition selectQuickPick ::
  "'p env \<Rightarrow> 'p IExecutionConfig list \<Rightarrow> 'p event list \<times> (error + 'p IExecutionConfig)" where
  "selectQuickPick e configs =
     (let choices = choices_loop e configs 0 [];
          selection = showQuickPick e choices ''Select test config''
      in ([ShowQuickPick choices ''Select test config''],
          case selection of
            None \<Rightarrow> Inl (Error ''Please specify the test config to use.'')
          | Some s \<Rightarrow> Inr (item s)))"

section \<open>\<open>selectDeprecatedConfig\<close>\<close>

text \<open>
  The loop \<open>for (const config of configs) configItems.push(...config.items)\<close>. A group
  that is \<open>undefined\<close> makes the read of \<open>config.items\<close> throw.
\<close>

fun push_items ::
  "'p IExecutionConfigGroup option list \<Rightarrow> 'p IExecutionConfig list
     \<Rightarrow> error + 'p IExecutionConfig list" where
  "push_items [] configItems = Inr configItems"
| "push_items (None # configs) configItems = Inl TypeError"
| "push_items (Some config # configs) configItems = push_items configs (configItems @ items config)"

definition selectDeprecatedConfig ::
  "'p env \<Rightarrow> 'p IExecutionConfigGroup option list \<Rightarrow> bool
     \<Rightarrow> 'p event list \<times> (error + 'p IExecutionConfig option)" where
  "selectDeprecatedConfig e configs usingDefaultConfig =
     (if length configs = 0 then ([], Inr None)
      else if usingDefaultConfig then
        (if length configs \<noteq> 1 then ([], Inr None)
         else case configs ! 0 of
           None \<Rightarrow> ([], Inl TypeError)
         | Some runConfig \<Rightarrow>
             if \<not> truthy (default_name runConfig) then ([], Inr None)
             else
               let candidates =
                     filter (\<lambda>item. name item = default_name runConfig) (items runConfig)
               in if length candidates = 0 then
                    ([ShowWarningMessage
                        (''There is no config with name: ''
                           @ template_string (default_name runConfig) @ ''.'')],
                     Inr None)
                  else
                    ((if length candidates > 1 then
                        [ShowWarningMessage
                           (''Duplicate configs with default name: ''
                              @ template_string (default_name runConfig) @ ''.'')]
                      else []),
                     Inr (Some (candidates ! 0))))
      else
        (let warned =
               (if length configs > 1 then
                  [ShowWarningMessage
                     ''It is not supported to run tests with config from multi root.'']
                else [])
         in case push_items configs [] of
              Inl err \<Rightarrow> (warned, Inl err)
            | Inr configItems \<Rightarrow>
                (case selectQuickPick e configItems of
                   (shown, Inl err) \<Rightarrow> (warned @ shown, Inl err)
                 | (shown, Inr config) \<Rightarrow> (warned @ shown, Inr (Some config)))))"

section \<open>\<open>loadRunConfig\<close>\<close>

text \<open>
  The \<open>else\<close> branch of \<open>loadRunConfig\<close>, the deprecated schema: the file
  \<open>configRelativePath\<close> under the folder, parsed, and the group of the mode pushed on
  the empty array \<open>deprecatedConfigs\<close>.
\<close>

definition loadDeprecatedConfig ::
  "'p env \<Rightarrow> TestConfigManager \<Rightarrow> WorkspaceFolder \<Rightarrow> bool \<Rightarrow> bool
     \<Rightarrow> 'p event list \<times> (error + 'p IExecutionConfig option)" where
  "loadDeprecatedConfig e this workspaceFolder isDebug usingDefaultConfig =
     (let configFullPath =
            path_join e (fsPath (WorkspaceFolder.uri workspaceFolder)) (configRelativePath this)
      in if \<not> pathExists e configFullPath then ([], Inr None)
         else case readFile e configFullPath of
           Inl err \<Rightarrow> ([], Inl err)
         | Inr content \<Rightarrow>
             (case JSON_parse e content of
                Inl err \<Rightarrow> ([], Inl err)
              | Inr deprecatedConfig \<Rightarrow>
                  selectDeprecatedConfig e
                    ([] @ [if isDebug then debug deprecatedConfig else run deprecatedConfig])
                    usingDefaultConfig))"

text \<open>
  \<open>tests[0].uri\<close> on an empty array reads a property of \<open>undefined\<close> and throws.
\<close>

definition loadRunConfig ::
  "'p env \<Rightarrow> TestConfigManager \<Rightarrow> ITestItem list \<Rightarrow> bool \<Rightarrow> bool
     \<Rightarrow> 'p event list \<times> (error + 'p IExecutionConfig option)" where
  "loadRunConfig e this tests isDebug usingDefaultConfig =
     (case tests of
        [] \<Rightarrow> ([], Inl TypeError)
      | test0 # _ \<Rightarrow>
          (case getWorkspaceFolder e (Uri_parse e (ITestItem.uri test0)) of
             None \<Rightarrow> ([], Inr None)
           | Some workspaceFolder \<Rightarrow>
               (case getConfiguration e (WorkspaceFolder.uri workspaceFolder) of
                  None \<Rightarrow> loadDeprecatedConfig e this workspaceFolder isDebug usingDefaultConfig
                | Some configs \<Rightarrow>
                    if length configs > 0 then
                      (if usingDefaultConfig then ([], Inr (Some (configs ! 0)))
                       else case selectQuickPick e configs of
                              (shown, Inl err) \<Rightarrow> (shown, Inl err)
                            | (shown, Inr config) \<Rightarrow> (shown, Inr (Some config)))
                    else loadDeprecatedConfig e this workspaceFolder isDebug usingDefaultConfig)))"

section \<open>The instance across calls\<close>

text \<open>
  What persists from one call to the next is the instance of the class, the exported
  \<open>testConfigManager\<close>; \<open>readonly\<close> is checked by the compiler only, so a method
  could still write to it. Here the four parts of \<open>loadRunConfig\<close> are written once
  more as transformers of that state: each takes the instance \<open>this\<close> and returns the
  instance it leaves behind, next to its effects and its result, and the instance that a
  callee returns is the one the caller goes on with. The arrays \<open>deprecatedConfigs\<close>,
  \<open>configItems\<close> and \<open>choices\<close> are locals, created empty by every call.
\<close>

definition selectQuickPick_st ::
  "'p env \<Rightarrow> TestConfigManager \<Rightarrow> 'p IExecutionConfig list
     \<Rightarrow> TestConfigManager \<times> 'p event list \<times> (error + 'p IExecutionConfig)" where
  "selectQuickPick_st e this configs =
     (let choices = choices_loop e configs 0 [];
          selection = showQuickPick e choices ''Select test config''
      in (this, [ShowQuickPick choices ''Select test config''],
          case selection of
            None \<Rightarrow> Inl (Error ''Please specify the test config to use.'')
          | Some s \<Rightarrow> Inr (item s)))"

definition selectDeprecatedConfig_st ::
  "'p env \<Rightarrow> TestConfigManager \<Rightarrow> 'p IExecutionConfigGroup option list \<Rightarrow> bool
     \<Rightarrow> TestConfigManager \<times> 'p event list \<times> (error + 'p IExecutionConfig option)" where
  "selectDeprecatedConfig_st e this configs usingDefaultConfig =
     (if length configs = 0 then (this, [], Inr None)
      else if usingDefaultConfig then
        (if length configs \<noteq> 1 then (this, [], Inr None)
         else case configs ! 0 of
           None \<Rightarrow> (this, [], Inl TypeError)
         | Some runConfig \<Rightarrow>
             if \<not> truthy (default_name runConfig) then (this, [], Inr None)
             else
               let candidates =
                     filter (\<lambda>item. name item = default_name runConfig) (items runConfig)
               in if length candidates = 0 then
                    (this,
                     [ShowWarningMessage
                        (''There is no config with name: ''
                           @ template_string (default_name runConfig) @ ''.'')],
                     Inr None)
                  else
                    (this,
                     (if length candidates > 1 then
                        [ShowWarningMessage
                           (''Duplicate configs with default name: ''
                              @ template_string (default_name runConfig) @ ''.'')]
                      else []),
                     Inr (Some (candidates ! 0))))
      else
        (let warned =
               (if length configs > 1 then
                  [ShowWarningMessage
                     ''It is not supported to run tests with config from multi root.'']
                else [])
         in case push_items configs [] of
              Inl err \<Rightarrow> (this, warned, Inl err)
            | Inr configItems \<Rightarrow>
                (case selectQuickPick_st e this configItems of
                   (this', shown, Inl err) \<Rightarrow> (this', warned @ shown, Inl err)
                 | (this', shown, Inr config) \<Rightarrow> (this', warned @ shown, Inr (Some config)))))"

definition loadDeprecatedConfig_st ::
  "'p env \<Rightarrow> TestConfigManager \<Rightarrow> WorkspaceFolder \<Rightarrow> bool \<Rightarrow> bool
     \<Rightarrow> TestConfigManager \<times> 'p event list \<times> (error + 'p IExecutionConfig option)" where
  "loadDeprecatedConfig_st e this workspaceFolder isDebug usingDefaultConfig =
     (let configFullPath =
            path_join e (fsPath (WorkspaceFolder.uri workspaceFolder)) (configRelativePath this)
      in if \<not> pathExists e configFullPath then (this, [], Inr None)
         else case readFile e configFullPath of
           Inl err \<Rightarrow> (this, [], Inl err)
         | Inr content \<Rightarrow>
             (case JSON_parse e content of
                Inl err \<Rightarrow> (this, [], Inl err)
              | Inr deprecatedConfig \<Rightarrow>
                  selectDeprecatedConfig_st e this
                    ([] @ [if isDebug then debug deprecatedConfig else run deprecatedConfig])
                    usingDefaultConfig))"

definition loadRunConfig_st ::
  "'p env \<Rightarrow> TestConfigManager \<Rightarrow> ITestItem list \<Rightarrow> bool \<Rightarrow> bool
     \<Rightarrow> TestConfigManager \<times> 'p event list \<times> (error + 'p IExecutionConfig option)" where
  "loadRunConfig_st e this tests isDebug usingDefaultConfig =
     (case tests of
        [] \<Rightarrow> (this, [], Inl TypeError)
      | test0 # _ \<Rightarrow>
          (case getWorkspaceFolder e (Uri_parse e (ITestItem.uri test0)) of
             None \<Rightarrow> (this, [], Inr None)
           | Some workspaceFolder \<Rightarrow>
               (case getConfiguration e (WorkspaceFolder.uri workspaceFolder) of
                  None \<Rightarrow> loadDeprecatedConfig_st e this workspaceFolder isDebug usingDefaultConfig
                | Some configs \<Rightarrow>
                    if length configs > 0 then
                      (if usingDefaultConfig then (this, [], Inr (Some (configs ! 0)))
                       else case selectQuickPick_st e this configs of
                              (this', shown, Inl err) \<Rightarrow> (this', shown, Inl err)
                            | (this', shown, Inr config) \<Rightarrow> (this', shown, Inr (Some config)))
                    else loadDeprecatedConfig_st e this workspaceFolder isDebug
                           usingDefaultConfig)))"

text \<open>Two calls one after the other, the second on the instance that the first left.\<close>

definition loadRunConfig_twice ::
  "'p env \<Rightarrow> TestConfigManager \<Rightarrow> ITestItem list \<Rightarrow> bool \<Rightarrow> bool
     \<Rightarrow> TestConfigManager
         \<times> ('p event list \<times> (error + 'p IExecutionConfig option))
         \<times> ('p event list \<times> (error + 'p IExecutionConfig option))" where
  "loadRunConfig_twice e this tests isDebug usingDefaultConfig =
     (case loadRunConfig_st e this tests isDebug usingDefaultConfig of
        (this1, outcome1) \<Rightarrow>
          (case loadRunConfig_st e this1 tests isDebug usingDefaultConfig of
             (this2, outcome2) \<Rightarrow> (this2, outcome1, outcome2)))"

section \<open>Notions used in the statements\<close>

text \<open>The entry that the iteration \<open>i = k\<close> of the loop of \<open>selectQuickPick\<close> appends.\<close>

definition quickPick_of :: "'p env \<Rightarrow> nat \<Rightarrow> 'p IExecutionConfig \<Rightarrow> 'p IRunConfigQuickPick" where
  "quickPick_of e k config =
     \<lparr>label = (case name config of
                 None \<Rightarrow> ''Configuration #'' @ number_toString (k + 1)
               | Some n \<Rightarrow> if n = [] then ''Configuration #'' @ number_toString (k + 1) else n),
       detail = JSON_stringify e config,
       item = config\<rparr>"

text \<open>The number that a string of decimal digits denotes.\<close>

fun decimal_value :: "string \<Rightarrow> nat" where
  "decimal_value s = foldl (\<lambda>acc c. 10 * acc + (of_char c - 48)) 0 s"

text \<open>
  The decimal numeral of a number, said without \<open>number_toString\<close>: a non-empty string
  of the digits \<open>0\<close> to \<open>9\<close>, with no leading zero unless it is the string \<open>0\<close>,
  that denotes the number.
\<close>

definition is_digit :: "char \<Rightarrow> bool" where
  "is_digit c = (c \<in> set ''0123456789'')"

definition is_decimal_of :: "string \<Rightarrow> nat \<Rightarrow> bool" where
  "is_decimal_of ds n =
     (ds \<noteq> [] \<and> list_all is_digit ds \<and> (hd ds = CHR ''0'' \<longrightarrow> ds = ''0'')
      \<and> decimal_value ds = n)"

text \<open>
  The two things that \<open>loadRunConfig\<close> asks the workspace and the file system about:
  the folder of the first test item, and the path of the deprecated file under a folder.
\<close>

definition owning_folder :: "'p env \<Rightarrow> ITestItem list \<Rightarrow> WorkspaceFolder option" where
  "owning_folder e tests =
     (case tests of
        [] \<Rightarrow> None
      | test0 # _ \<Rightarrow> getWorkspaceFolder e (Uri_parse e (ITestItem.uri test0)))"

definition configFullPath_of :: "'p env \<Rightarrow> TestConfigManager \<Rightarrow> WorkspaceFolder \<Rightarrow> string" where
  "configFullPath_of e this folder =
     path_join e (fsPath (WorkspaceFolder.uri folder)) (configRelativePath this)"

section \<open>A sample workspace\<close>

text \<open>
  One workspace folder \<open>/ws\<close> on a POSIX file system. The settings of the folder, the
  files (path and content), the documents that the contents parse to, and the index of
  the entry that the user picks (\<open>None\<close>: the prompt is dismissed) are parameters. The
  opaque parameters of a configuration are a string here, its VM arguments.
\<close>

definition posix_join :: "string \<Rightarrow> string \<Rightarrow> string" where
  "posix_join a b = a @ ''/'' @ b"

definition sample_folder :: WorkspaceFolder where
  "sample_folder = \<lparr>uri = \<lparr>fsPath = ''/ws''\<rparr>\<rparr>"

definition sample_env ::
  "string IExecutionConfig list option \<Rightarrow> (string \<times> string) list
     \<Rightarrow> (string \<times> string ITestConfig) list \<Rightarrow> nat option \<Rightarrow> string env" where
  "sample_env settings files documents answer =
     \<lparr>Uri_parse = (\<lambda>s. \<lparr>fsPath = s\<rparr>),
      getWorkspaceFolder =
        (\<lambda>u. if take 4 (fsPath u) = ''/ws/'' then Some sample_folder else None),
      getConfiguration = (\<lambda>u. if fsPath u = ''/ws'' then settings else None),
      pathExists = (\<lambda>p. map_of files p \<noteq> None),
      readFile =
        (\<lambda>p. case map_of files p of None \<Rightarrow> Inl FsError | Some content \<Rightarrow> Inr content),
      JSON_parse =
        (\<lambda>s. case map_of documents s of None \<Rightarrow> Inl SyntaxError | Some d \<Rightarrow> Inr d),
      JSON_stringify = (\<lambda>c. template_string (name c) @ '':'' @ params c),
      path_join = posix_join,
      showQuickPick =
        (\<lambda>choices placeHolder.
           case answer of
             None \<Rightarrow> None
           | Some k \<Rightarrow> if k < length choices then Some (choices ! k) else None)\<rparr>"

definition config_X1 :: "string IExecutionConfig" where
  "config_X1 = \<lparr>name = Some ''X'', params = ''-ea''\<rparr>"

definition config_X2 :: "string IExecutionConfig" where
  "config_X2 = \<lparr>name = Some ''X'', params = ''-da''\<rparr>"

definition config_Y :: "string IExecutionConfig" where
  "config_Y = \<lparr>name = Some ''Y'', params = ''-Xmx1g''\<rparr>"

definition config_unnamed :: "string IExecutionConfig" where
  "config_unnamed = \<lparr>name = None, params = ''''\<rparr>"

definition config_blank :: "string IExecutionConfig" where
  "config_blank = \<lparr>name = Some '''', params = ''-server''\<rparr>"

definition sample_test :: ITestItem where
  "sample_test = \<lparr>ITestItem.uri = ''/ws/src/AppTest.java''\<rparr>"

definition outside_test :: ITestItem where
  "outside_test = \<lparr>ITestItem.uri = ''/tmp/OtherTest.java''\<rparr>"

definition legacy_path :: string where
  "legacy_path = ''/ws/.vscode/launch.test.json''"

definition run_only_document :: "string ITestConfig" where
  "run_only_document =
     \<lparr>run = Some \<lparr>default_name = Some ''X'', items = [config_X1]\<rparr>, debug = None\<rparr>"

section \<open>The loops in closed form\<close>

lemma label_cases:
  "(if truthy nm then the nm else fb) =
   (case nm of None \<Rightarrow> fb | Some n \<Rightarrow> if n = [] then fb else n)"
  by (cases nm) auto

lemma choices_loop_eq:
  "choices_loop e configs i choices =
     choices @ map (\<lambda>k. quickPick_of e k (configs ! k)) [i..<length configs]"
proof (induction e configs i choices rule: choices_loop.induct)
  case (1 e configs i choices)
  show ?case
  proof (cases "i < length configs")
    case True
    then show ?thesis
      using "1.IH" [OF True]
      by (subst choices_loop.simps) (simp add: upt_conv_Cons quickPick_of_def label_cases)
  next
    case False
    then show ?thesis by (subst choices_loop.simps) simp
  qed
qed

lemma choices_loop_length: "length (choices_loop e configs 0 []) = length configs"
  by (simp add: choices_loop_eq)

lemma choices_loop_nth:
  "k < length configs \<Longrightarrow> choices_loop e configs 0 [] ! k = quickPick_of e k (configs ! k)"
  by (simp add: choices_loop_eq)

lemma choices_loop_items: "map item (choices_loop e configs 0 []) = configs"
  by (rule nth_equalityI) (simp_all add: choices_loop_eq quickPick_of_def)

lemma push_items_present:
  "push_items (map Some groups) configItems = Inr (configItems @ concat (map items groups))"
  by (induction groups arbitrary: configItems) simp_all

lemma filter_first_match:
  assumes "filter P xs \<noteq> []"
  shows "\<exists>x. List.find P xs = Some x \<and> filter P xs ! 0 = x"
  using assms by (induction xs) auto

subsection \<open>The digits of \<open>number_toString\<close>\<close>

lemma digit_char_value: "d < 10 \<Longrightarrow> of_char (digit_char d) - 48 = d"
proof -
  assume "d < 10"
  then have "d \<in> {0, 1, 2, 3, 4, 5, 6, 7, 8, 9}" by auto
  then show ?thesis by (auto simp: digit_char_def)
qed

lemma number_toString_digit: "n < 10 \<Longrightarrow> number_toString n = [digit_char n]"
  by (subst number_toString.simps) simp

lemma number_toString_decimal: "decimal_value (number_toString n) = n"
proof (induction n rule: number_toString.induct)
  case (1 n)
  show ?case
  proof (cases "n < 10")
    case True
    then show ?thesis
      by (subst number_toString.simps) (simp add: digit_char_value)
  next
    case False
    with "1.IH" have "decimal_value (number_toString (n div 10)) = n div 10" by simp
    with False show ?thesis
      by (subst number_toString.simps) (simp add: digit_char_value)
  qed
qed

lemma digit_char_is_digit: "d < 10 \<Longrightarrow> is_digit (digit_char d)"
proof -
  assume "d < 10"
  then have "d \<in> {0, 1, 2, 3, 4, 5, 6, 7, 8, 9}" by auto
  then show ?thesis by (auto simp: digit_char_def is_digit_def)
qed

lemma digit_char_zero: "d < 10 \<Longrightarrow> digit_char d = CHR ''0'' \<Longrightarrow> d = 0"
proof -
  assume "d < 10" and z: "digit_char d = CHR ''0''"
  then have "d \<in> {0, 1, 2, 3, 4, 5, 6, 7, 8, 9}" by auto
  with z show ?thesis by (auto simp: digit_char_def)
qed

lemma is_digit_value: "is_digit c \<Longrightarrow> of_char c - 48 < (10::nat)"
  by (auto simp: is_digit_def)

lemma is_digit_char: "is_digit c \<Longrightarrow> digit_char (of_char c - 48) = c"
  by (auto simp: is_digit_def digit_char_def)

lemma is_digit_nonzero: "is_digit c \<Longrightarrow> c \<noteq> CHR ''0'' \<Longrightarrow> 0 < (of_char c - 48 :: nat)"
  by (auto simp: is_digit_def)

lemma decimal_value_snoc:
  "decimal_value (ds @ [c]) = 10 * decimal_value ds + (of_char c - 48)"
  by simp

lemma number_toString_nonempty: "number_toString n \<noteq> []"
  by (subst number_toString.simps) simp

lemma number_toString_digits: "list_all is_digit (number_toString n)"
proof (induction n rule: number_toString.induct)
  case (1 n)
  show ?case
  proof (cases "n < 10")
    case True
    then show ?thesis
      by (subst number_toString.simps) (simp add: digit_char_is_digit)
  next
    case False
    with "1.IH" have "list_all is_digit (number_toString (n div 10))" by simp
    with False show ?thesis
      by (subst number_toString.simps) (simp add: digit_char_is_digit)
  qed
qed

lemma number_toString_hd: "hd (number_toString n) = CHR ''0'' \<Longrightarrow> n = 0"
proof (induction n rule: number_toString.induct)
  case (1 n)
  show ?case
  proof (cases "n < 10")
    case True
    with "1.prems" show ?thesis
      by (simp add: number_toString_digit digit_char_zero)
  next
    case False
    then have "number_toString n = number_toString (n div 10) @ [digit_char (n mod 10)]"
      by (subst number_toString.simps) simp
    with "1.prems" have "hd (number_toString (n div 10)) = CHR ''0''"
      by (simp add: number_toString_nonempty)
    with "1.IH" False have "n div 10 = 0" by simp
    with False show ?thesis by simp
  qed
qed

lemma number_toString_canonical: "is_decimal_of (number_toString n) n"
proof -
  have "hd (number_toString n) = CHR ''0'' \<longrightarrow> number_toString n = ''0''"
  proof
    assume "hd (number_toString n) = CHR ''0''"
    then have "n = 0" by (rule number_toString_hd)
    then show "number_toString n = ''0''"
      by (simp add: number_toString_digit digit_char_def)
  qed
  then show ?thesis
    unfolding is_decimal_of_def
    using number_toString_nonempty number_toString_digits number_toString_decimal by blast
qed

lemma decimal_value_positive:
  "ds \<noteq> [] \<Longrightarrow> list_all is_digit ds \<Longrightarrow> hd ds \<noteq> CHR ''0'' \<Longrightarrow> 0 < decimal_value ds"
proof (induction ds rule: rev_induct)
  case Nil
  then show ?case by simp
next
  case (snoc c ds)
  show ?case
  proof (cases "ds = []")
    case True
    with snoc.prems have "is_digit c" "c \<noteq> CHR ''0''" by simp_all
    then have "0 < (of_char c - 48 :: nat)" by (rule is_digit_nonzero)
    with True show ?thesis by simp
  next
    case False
    with snoc.prems have "list_all is_digit ds" "hd ds \<noteq> CHR ''0''" by simp_all
    with snoc.IH False have "0 < decimal_value ds" by simp
    moreover have "decimal_value (ds @ [c]) = 10 * decimal_value ds + (of_char c - 48)"
      by (rule decimal_value_snoc)
    ultimately show ?thesis by linarith
  qed
qed

text \<open>The numeral of a number is unique, so \<open>is_decimal_of\<close> pins the string.\<close>

lemma is_decimal_of_unique: "is_decimal_of ds n \<Longrightarrow> ds = number_toString n"
proof (induction ds arbitrary: n rule: rev_induct)
  case Nil
  then show ?case by (simp add: is_decimal_of_def)
next
  case (snoc c ds)
  from snoc.prems have digits: "list_all is_digit ds" "is_digit c"
    and val: "10 * decimal_value ds + (of_char c - 48) = n"
    and lead: "hd (ds @ [c]) = CHR ''0'' \<longrightarrow> ds @ [c] = ''0''"
    unfolding is_decimal_of_def decimal_value_snoc by simp_all
  have c10: "of_char c - 48 < (10::nat)" using digits(2) by (rule is_digit_value)
  show ?case
  proof (cases "ds = []")
    case True
    with val c10 have small: "n < 10" and c: "of_char c - 48 = n" by simp_all
    from digits(2) have "digit_char (of_char c - 48) = c" by (rule is_digit_char)
    with c have "digit_char n = c" by simp
    with True small show ?thesis by (simp add: number_toString_digit)
  next
    case False
    with lead have hd: "hd ds \<noteq> CHR ''0''" by auto
    with False digits(1) have pos: "0 < decimal_value ds" by (rule decimal_value_positive)
    from val c10 have div: "n div 10 = decimal_value ds" and md: "n mod 10 = of_char c - 48"
      by auto
    from False digits(1) hd div have "is_decimal_of ds (n div 10)"
      by (simp add: is_decimal_of_def)
    then have "ds = number_toString (n div 10)" by (rule snoc.IH)
    moreover from pos div have "\<not> n < 10" by auto
    then have "number_toString n = number_toString (n div 10) @ [digit_char (n mod 10)]"
      by (subst number_toString.simps) simp
    moreover from digits(2) md have "digit_char (n mod 10) = c" by (simp add: is_digit_char)
    ultimately show ?thesis by simp
  qed
qed

subsection \<open>What the functions read of the collaborators\<close>

lemma choices_loop_cong:
  "JSON_stringify e1 = JSON_stringify e2 \<Longrightarrow>
     choices_loop e1 configs i choices = choices_loop e2 configs i choices"
  by (simp add: choices_loop_eq quickPick_of_def)

lemma selectQuickPick_cong:
  assumes "JSON_stringify e1 = JSON_stringify e2" and "showQuickPick e1 = showQuickPick e2"
  shows "selectQuickPick e1 configs = selectQuickPick e2 configs"
  using assms choices_loop_cong [OF assms(1), of configs 0 "[]"]
  by (simp add: selectQuickPick_def)

lemma selectDeprecatedConfig_cong:
  assumes "JSON_stringify e1 = JSON_stringify e2" and "showQuickPick e1 = showQuickPick e2"
  shows "selectDeprecatedConfig e1 configs u = selectDeprecatedConfig e2 configs u"
  unfolding selectDeprecatedConfig_def selectQuickPick_cong [OF assms] by (rule refl)

lemma loadDeprecatedConfig_cong:
  assumes "JSON_stringify e1 = JSON_stringify e2" and "showQuickPick e1 = showQuickPick e2"
    and "JSON_parse e1 = JSON_parse e2"
    and "configFullPath_of e1 this folder = configFullPath_of e2 this folder"
    and "pathExists e1 (configFullPath_of e1 this folder)
           = pathExists e2 (configFullPath_of e1 this folder)"
    and "readFile e1 (configFullPath_of e1 this folder)
           = readFile e2 (configFullPath_of e1 this folder)"
  shows "loadDeprecatedConfig e1 this folder d u = loadDeprecatedConfig e2 this folder d u"
  using assms(3-6)
  by (simp add: loadDeprecatedConfig_def configFullPath_of_def
        selectDeprecatedConfig_cong [OF assms(1,2)] Let_def split: sum.splits)

subsection \<open>The state-passing methods leave the instance as it was\<close>

lemma selectQuickPick_st_eq:
  "selectQuickPick_st e this configs = (this, selectQuickPick e configs)"
  by (simp add: selectQuickPick_st_def selectQuickPick_def Let_def)

lemma selectDeprecatedConfig_st_eq:
  "selectDeprecatedConfig_st e this configs u = (this, selectDeprecatedConfig e configs u)"
  by (simp add: selectDeprecatedConfig_st_def selectDeprecatedConfig_def selectQuickPick_st_eq
        Let_def split: option.splits sum.splits prod.splits)

lemma loadDeprecatedConfig_st_eq:
  "loadDeprecatedConfig_st e this folder d u = (this, loadDeprecatedConfig e this folder d u)"
  by (simp add: loadDeprecatedConfig_st_def loadDeprecatedConfig_def selectDeprecatedConfig_st_eq
        Let_def split: sum.splits)

lemma loadRunConfig_st_eq:
  "loadRunConfig_st e this tests d u = (this, loadRunConfig e this tests d u)"
  by (simp add: loadRunConfig_st_def loadRunConfig_def loadDeprecatedConfig_st_eq
        selectQuickPick_st_eq split: list.splits option.splits sum.splits prod.splits)

section \<open>The new schema\<close>

text \<open>
  Claim C1. When the folder of the first test item is resolved and the settings of that
  folder hold a non-empty list of configurations, \<open>loadRunConfig\<close> with
  \<open>usingDefaultConfig = true\<close> returns the first element of the list, whatever the list
  holds, the mode and the remaining test items are: no name is looked up, nothing is
  shown to the user, and no prompt is opened (the list of effects is empty).
\<close>

theorem loadRunConfig_default_first:
  assumes "getWorkspaceFolder e (Uri_parse e (ITestItem.uri t)) = Some folder"
    and "getConfiguration e (WorkspaceFolder.uri folder) = Some (c # cs)"
  shows "loadRunConfig e this (t # ts) isDebug True = ([], Inr (Some c))"
  using assms by (simp add: loadRunConfig_def)

text \<open>
  In the sample workspace with the settings \<open>[Y, X]\<close> the default is \<open>Y\<close>, the first.
\<close>

theorem loadRunConfig_default_first_witness:
  "loadRunConfig (sample_env (Some [config_Y, config_X1]) [] [] None)
     (TestConfigManager_new (sample_env (Some [config_Y, config_X1]) [] [] None))
     [sample_test] False True = ([], Inr (Some config_Y))"
  using loadRunConfig_default_first
    [where e = "sample_env (Some [config_Y, config_X1]) [] [] None" and t = sample_test
      and folder = sample_folder and c = config_Y and cs = "[config_X1]" and ts = "[]"
      and isDebug = False]
  by (simp add: sample_env_def sample_test_def sample_folder_def)

section \<open>The deprecated schema, default mode\<close>

text \<open>
  Claim C2. \<open>selectDeprecatedConfig\<close> with \<open>usingDefaultConfig = true\<close> on a single
  group that declares the default name \<open>d\<close> (a non-empty one: on an absent or empty
  default the function returns before it looks at the items), where more than one item
  of the group has the name \<open>d\<close>: the result is
  the first item of the group, in the order of its items, whose name is \<open>d\<close>, and the
  effects are exactly one warning, the one about duplicate configurations.
\<close>

theorem selectDeprecatedConfig_duplicate_default:
  assumes "default_name g = Some d" and "d \<noteq> []"
    and "length (filter (\<lambda>c. name c = Some d) (items g)) > 1"
  shows "\<exists>c. List.find (\<lambda>c. name c = Some d) (items g) = Some c \<and>
           selectDeprecatedConfig e [Some g] True =
             ([ShowWarningMessage (''Duplicate configs with default name: '' @ d @ ''.'')],
              Inr (Some c))"
proof -
  from assms(3) have ne: "filter (\<lambda>c. name c = Some d) (items g) \<noteq> []" by auto
  from filter_first_match [OF ne] obtain c where
    c: "List.find (\<lambda>c. name c = Some d) (items g) = Some c"
       "filter (\<lambda>c. name c = Some d) (items g) ! 0 = c" by blast
  with assms ne show ?thesis by (simp add: selectDeprecatedConfig_def Let_def)
qed

text \<open>
  The group with default \<open>X\<close> and the items \<open>X\<close> (with \<open>-ea\<close>), \<open>X\<close> (with \<open>-da\<close>)
  and \<open>Y\<close>: the first \<open>X\<close> is returned after one warning.
\<close>

theorem selectDeprecatedConfig_duplicate_default_witness:
  "selectDeprecatedConfig (sample_env None [] [] None)
     [Some \<lparr>default_name = Some ''X'', items = [config_X1, config_X2, config_Y]\<rparr>] True =
   ([ShowWarningMessage ''Duplicate configs with default name: X.''], Inr (Some config_X1))"
  using selectDeprecatedConfig_duplicate_default
    [where g = "\<lparr>default_name = Some ''X'', items = [config_X1, config_X2, config_Y]\<rparr>"
      and d = "''X''" and e = "sample_env None [] [] None"]
  by (simp add: config_X1_def config_X2_def config_Y_def)

text \<open>
  Claim C3. \<open>selectDeprecatedConfig\<close> with \<open>usingDefaultConfig = true\<close>: for every
  sequence of groups whose length is not one (none, or more than one), and for a single
  group whose default name is absent or empty, the result is "none" with no effect at
  all, neither an error nor a warning; and whenever a configuration is selected, there
  was exactly one group and it declared a non-empty default name.
\<close>

theorem selectDeprecatedConfig_default_none:
  "(length configs \<noteq> 1 \<longrightarrow> selectDeprecatedConfig e configs True = ([], Inr None))
   \<and> (default_name g = None \<or> default_name g = Some [] \<longrightarrow>
        selectDeprecatedConfig e [Some g] True = ([], Inr None))
   \<and> (selectDeprecatedConfig e configs True = (shown, Inr (Some c)) \<longrightarrow>
        (\<exists>g d. configs = [Some g] \<and> default_name g = Some d \<and> d \<noteq> []))"
proof (intro conjI impI)
  assume "length configs \<noteq> 1"
  then show "selectDeprecatedConfig e configs True = ([], Inr None)"
    by (simp add: selectDeprecatedConfig_def)
next
  assume "default_name g = None \<or> default_name g = Some []"
  then show "selectDeprecatedConfig e [Some g] True = ([], Inr None)"
    by (auto simp: selectDeprecatedConfig_def)
next
  assume sel: "selectDeprecatedConfig e configs True = (shown, Inr (Some c))"
  then have len: "length configs = 1"
    by (auto simp: selectDeprecatedConfig_def split: if_splits)
  then obtain x where x: "configs = [x]"
    by (cases configs) auto
  with sel obtain g where g: "x = Some g"
    by (cases x) (auto simp: selectDeprecatedConfig_def)
  with sel x have "truthy (default_name g)"
    by (auto simp: selectDeprecatedConfig_def split: if_splits)
  then obtain d where "default_name g = Some d" "d \<noteq> []"
    by (cases "default_name g") auto
  with x g show "\<exists>g d. configs = [Some g] \<and> default_name g = Some d \<and> d \<noteq> []"
    by blast
qed

text \<open>
  Two groups, each with a default that one of its items has: none. One group with the
  empty default: none. One group with the default \<open>X\<close> and the item \<open>X\<close>: selected.
\<close>

theorem selectDeprecatedConfig_default_none_witness:
  "selectDeprecatedConfig (sample_env None [] [] None)
     [Some \<lparr>default_name = Some ''X'', items = [config_X1]\<rparr>,
      Some \<lparr>default_name = Some ''Y'', items = [config_Y]\<rparr>] True = ([], Inr None)
   \<and> selectDeprecatedConfig (sample_env None [] [] None)
        [Some \<lparr>default_name = Some '''', items = [config_blank]\<rparr>] True = ([], Inr None)
   \<and> selectDeprecatedConfig (sample_env None [] [] None)
        [Some \<lparr>default_name = Some ''X'', items = [config_X1]\<rparr>] True
        = ([], Inr (Some config_X1))
   \<and> (\<exists>g d. [Some \<lparr>default_name = Some ''X'', items = [config_X1]\<rparr>] = [Some g]
          \<and> default_name g = Some d \<and> d \<noteq> [])"
proof -
  let ?e = "sample_env None [] [] None"
  let ?two = "[Some \<lparr>default_name = Some ''X'', items = [config_X1]\<rparr>,
      Some \<lparr>default_name = Some ''Y'', items = [config_Y]\<rparr>]"
  let ?one = "[Some \<lparr>default_name = Some ''X'', items = [config_X1]\<rparr>]"
  have sel: "selectDeprecatedConfig ?e ?one True = ([], Inr (Some config_X1))"
    by (simp add: selectDeprecatedConfig_def config_X1_def)
  have "selectDeprecatedConfig ?e ?two True = ([], Inr None)"
    using selectDeprecatedConfig_default_none [where configs = ?two and e = ?e] by simp
  moreover have "selectDeprecatedConfig ?e
        [Some \<lparr>default_name = Some '''', items = [config_blank]\<rparr>] True = ([], Inr None)"
    using selectDeprecatedConfig_default_none
      [where g = "\<lparr>default_name = Some '''', items = [config_blank]\<rparr>" and e = ?e]
    by simp
  moreover have "\<exists>g d. ?one = [Some g] \<and> default_name g = Some d \<and> d \<noteq> []"
    using selectDeprecatedConfig_default_none
      [where configs = ?one and e = ?e and shown = "[]" and c = config_X1] sel
    by blast
  ultimately show ?thesis using sel by blast
qed

text \<open>
  Claim C4. \<open>selectDeprecatedConfig\<close> with \<open>usingDefaultConfig = true\<close> on a single
  group that declares the default name \<open>d\<close> (a non-empty one: on an absent or empty
  default the function returns before it looks at the items), where no item of the
  group has the name \<open>d\<close>: the effects are exactly one warning, "There is no config
  with name: d.", and the result is "none".
\<close>

theorem selectDeprecatedConfig_default_not_found:
  assumes "default_name g = Some d" and "d \<noteq> []"
    and "\<forall>c \<in> set (items g). name c \<noteq> Some d"
  shows "selectDeprecatedConfig e [Some g] True =
           ([ShowWarningMessage (''There is no config with name: '' @ d @ ''.'')], Inr None)"
proof -
  from assms(3) have "filter (\<lambda>c. name c = Some d) (items g) = []"
    by (simp add: filter_empty_conv)
  with assms(1,2) show ?thesis by (simp add: selectDeprecatedConfig_def Let_def)
qed

text \<open>The group with default \<open>Z\<close> and the one item \<open>X\<close>.\<close>

theorem selectDeprecatedConfig_default_not_found_witness:
  "selectDeprecatedConfig (sample_env None [] [] None)
     [Some \<lparr>default_name = Some ''Z'', items = [config_X1]\<rparr>] True =
   ([ShowWarningMessage ''There is no config with name: Z.''], Inr None)"
  using selectDeprecatedConfig_default_not_found
    [where g = "\<lparr>default_name = Some ''Z'', items = [config_X1]\<rparr>" and d = "''Z''"
      and e = "sample_env None [] [] None"]
  by (simp add: config_X1_def)

section \<open>The deprecated schema, interactive mode\<close>

text \<open>
  Claim C5. \<open>selectDeprecatedConfig\<close> with \<open>usingDefaultConfig = false\<close> on a non-empty
  sequence of groups (each of them an object): the prompt is opened once, on the entries
  that \<open>selectQuickPick\<close> builds for the concatenation of the items of all groups, in
  the order of the groups and, within a group, of its items; before it, the multi-root
  warning is shown once if there is more than one group and not at all otherwise; and
  in both cases the call goes on to the prompt, whose answer decides the result.
\<close>

theorem selectDeprecatedConfig_interactive_flatten:
  assumes "groups \<noteq> []"
  shows "map item (choices_loop e (concat (map items groups)) 0 []) = concat (map items groups)
         \<and> selectDeprecatedConfig e (map Some groups) False =
             ((if length groups > 1
               then [ShowWarningMessage
                       ''It is not supported to run tests with config from multi root.'']
               else [])
                @ [ShowQuickPick (choices_loop e (concat (map items groups)) 0 [])
                     ''Select test config''],
              case showQuickPick e (choices_loop e (concat (map items groups)) 0 [])
                     ''Select test config'' of
                None \<Rightarrow> Inl (Error ''Please specify the test config to use.'')
              | Some s \<Rightarrow> Inr (Some (item s)))"
proof
  show "map item (choices_loop e (concat (map items groups)) 0 []) = concat (map items groups)"
    by (rule choices_loop_items)
next
  from assms show "selectDeprecatedConfig e (map Some groups) False =
             ((if length groups > 1
               then [ShowWarningMessage
                       ''It is not supported to run tests with config from multi root.'']
               else [])
                @ [ShowQuickPick (choices_loop e (concat (map items groups)) 0 [])
                     ''Select test config''],
              case showQuickPick e (choices_loop e (concat (map items groups)) 0 [])
                     ''Select test config'' of
                None \<Rightarrow> Inl (Error ''Please specify the test config to use.'')
              | Some s \<Rightarrow> Inr (Some (item s)))"
    by (simp add: selectDeprecatedConfig_def push_items_present selectQuickPick_def Let_def
          split: option.splits)
qed

text \<open>
  Two groups with the items \<open>[X, unnamed]\<close> and \<open>[Y]\<close>, and a user who picks the third
  entry: one warning, one prompt on the three entries in that order, and \<open>Y\<close>.
\<close>

theorem selectDeprecatedConfig_interactive_flatten_witness:
  "selectDeprecatedConfig (sample_env None [] [] (Some 2))
     [Some \<lparr>default_name = None, items = [config_X1, config_unnamed]\<rparr>,
      Some \<lparr>default_name = None, items = [config_Y]\<rparr>] False =
   ([ShowWarningMessage ''It is not supported to run tests with config from multi root.'',
     ShowQuickPick
       [\<lparr>label = ''X'', detail = ''X:-ea'', item = config_X1\<rparr>,
        \<lparr>label = ''Configuration #2'', detail = ''undefined:'', item = config_unnamed\<rparr>,
        \<lparr>label = ''Y'', detail = ''Y:-Xmx1g'', item = config_Y\<rparr>]
       ''Select test config''],
    Inr (Some config_Y))"
  using selectDeprecatedConfig_interactive_flatten
    [where groups = "[\<lparr>default_name = None, items = [config_X1, config_unnamed]\<rparr>,
      \<lparr>default_name = None, items = [config_Y]\<rparr>]" and e = "sample_env None [] [] (Some 2)"]
  by (simp add: choices_loop_eq quickPick_of_def upt_rec [of 0] upt_rec [of 1] upt_rec [of 2]
        upt_rec [of 3] sample_env_def config_X1_def config_Y_def config_unnamed_def
        number_toString_digit digit_char_def)

section \<open>The prompt\<close>

text \<open>
  Claim C6. \<open>selectQuickPick\<close> opens one prompt, on the entries it has built. If the
  user dismisses it (the prompt answers \<open>undefined\<close>), the call fails with the error
  "Please specify the test config to use."; the result type of the function has no
  "none". If the user chooses an entry, the call returns the configuration that this
  entry carries, and for the entry at position \<open>k\<close> of those offered this is the
  configuration at position \<open>k\<close> of the input.
\<close>

theorem selectQuickPick_dismissed_or_chosen:
  "fst (selectQuickPick e configs)
     = [ShowQuickPick (choices_loop e configs 0 []) ''Select test config'']
   \<and> (showQuickPick e (choices_loop e configs 0 []) ''Select test config'' = None \<longrightarrow>
        snd (selectQuickPick e configs) = Inl (Error ''Please specify the test config to use.''))
   \<and> (\<forall>s. showQuickPick e (choices_loop e configs 0 []) ''Select test config'' = Some s \<longrightarrow>
        snd (selectQuickPick e configs) = Inr (item s))
   \<and> (\<forall>k < length configs.
        showQuickPick e (choices_loop e configs 0 []) ''Select test config''
          = Some (choices_loop e configs 0 [] ! k) \<longrightarrow>
        snd (selectQuickPick e configs) = Inr (configs ! k))"
  by (simp add: selectQuickPick_def Let_def choices_loop_nth quickPick_of_def)

text \<open>
  On \<open>[X, Y]\<close>, a user who dismisses the prompt gets the error, and a user who picks
  the second entry gets \<open>Y\<close>.
\<close>

theorem selectQuickPick_dismissed_or_chosen_witness:
  "snd (selectQuickPick (sample_env None [] [] None) [config_X1, config_Y])
     = Inl (Error ''Please specify the test config to use.'')
   \<and> snd (selectQuickPick (sample_env None [] [] (Some 1)) [config_X1, config_Y])
       = Inr config_Y"
proof -
  let ?cs = "[config_X1, config_Y]"
  have "showQuickPick (sample_env None [] [] None)
          (choices_loop (sample_env None [] [] None) ?cs 0 []) ''Select test config'' = None"
    by (simp add: sample_env_def)
  then have dismissed: "snd (selectQuickPick (sample_env None [] [] None) ?cs)
     = Inl (Error ''Please specify the test config to use.'')"
    using selectQuickPick_dismissed_or_chosen
      [where e = "sample_env None [] [] None" and configs = ?cs]
    by blast
  let ?e = "sample_env None [] [] (Some 1)"
  have "showQuickPick ?e (choices_loop ?e ?cs 0 []) ''Select test config''
          = Some (choices_loop ?e ?cs 0 [] ! 1)"
    by (simp add: sample_env_def choices_loop_length)
  moreover have "(1::nat) < length ?cs" by simp
  ultimately have "snd (selectQuickPick ?e ?cs) = Inr (?cs ! 1)"
    using selectQuickPick_dismissed_or_chosen [where e = ?e and configs = ?cs] by blast
  with dismissed show ?thesis by simp
qed

text \<open>
  Claim C7. The entries that \<open>selectQuickPick\<close> offers are one per configuration, in
  the order of the configurations. The label of the entry at the 0-based position \<open>k\<close>
  is the name of the configuration when the name is present and non-empty, and
  otherwise exactly \<open>Configuration #\<close> followed by the decimal numeral of \<open>k + 1\<close>,
  the 1-based position: the one string of digits, without a leading zero, that denotes
  \<open>k + 1\<close>. Its detail is \<open>JSON.stringify\<close> of the configuration and its item is the
  configuration itself.
\<close>

theorem selectQuickPick_choices:
  "fst (selectQuickPick e configs)
     = [ShowQuickPick (choices_loop e configs 0 []) ''Select test config'']
   \<and> length (choices_loop e configs 0 []) = length configs
   \<and> (\<forall>k < length configs.
        \<exists>ds. is_decimal_of ds (k + 1)
           \<and> (\<forall>ds'. is_decimal_of ds' (k + 1) \<longrightarrow> ds' = ds)
           \<and> choices_loop e configs 0 [] ! k =
               \<lparr>label = (case name (configs ! k) of
                           None \<Rightarrow> ''Configuration #'' @ ds
                         | Some n \<Rightarrow> if n = [] then ''Configuration #'' @ ds else n),
                 detail = JSON_stringify e (configs ! k),
                 item = configs ! k\<rparr>)"
proof (intro conjI allI impI)
  show "fst (selectQuickPick e configs)
     = [ShowQuickPick (choices_loop e configs 0 []) ''Select test config'']"
    by (simp add: selectQuickPick_def Let_def)
next
  show "length (choices_loop e configs 0 []) = length configs"
    by (rule choices_loop_length)
next
  fix k assume k: "k < length configs"
  let ?ds = "number_toString (k + 1)"
  have "is_decimal_of ?ds (k + 1)" by (rule number_toString_canonical)
  moreover have "\<forall>ds'. is_decimal_of ds' (k + 1) \<longrightarrow> ds' = ?ds"
    by (simp add: is_decimal_of_unique)
  moreover from k have "choices_loop e configs 0 [] ! k =
               \<lparr>label = (case name (configs ! k) of
                           None \<Rightarrow> ''Configuration #'' @ ?ds
                         | Some n \<Rightarrow> if n = [] then ''Configuration #'' @ ?ds else n),
                 detail = JSON_stringify e (configs ! k),
                 item = configs ! k\<rparr>"
    by (simp add: choices_loop_nth quickPick_of_def)
  ultimately show "\<exists>ds. is_decimal_of ds (k + 1)
           \<and> (\<forall>ds'. is_decimal_of ds' (k + 1) \<longrightarrow> ds' = ds)
           \<and> choices_loop e configs 0 [] ! k =
               \<lparr>label = (case name (configs ! k) of
                           None \<Rightarrow> ''Configuration #'' @ ds
                         | Some n \<Rightarrow> if n = [] then ''Configuration #'' @ ds else n),
                 detail = JSON_stringify e (configs ! k),
                 item = configs ! k\<rparr>"
    by blast
qed

text \<open>
  Twelve configurations of which the last has no name: its label is
  \<open>Configuration #12\<close>. And a named configuration, one without a name and one with
  the empty name: the labels are \<open>X\<close>, \<open>Configuration #2\<close> and \<open>Configuration #3\<close>.
\<close>

theorem selectQuickPick_choices_witness:
  "choices_loop (sample_env None [] [] None) (replicate 11 config_X1 @ [config_unnamed]) 0 [] ! 11
     = \<lparr>label = ''Configuration #12'', detail = ''undefined:'', item = config_unnamed\<rparr>
   \<and> choices_loop (sample_env None [] [] None) [config_X1, config_unnamed, config_blank] 0 [] =
     [\<lparr>label = ''X'', detail = ''X:-ea'', item = config_X1\<rparr>,
      \<lparr>label = ''Configuration #2'', detail = ''undefined:'', item = config_unnamed\<rparr>,
      \<lparr>label = ''Configuration #3'', detail = '':-server'', item = config_blank\<rparr>]"
proof
  let ?e = "sample_env None [] [] None"
  let ?cs = "replicate 11 config_X1 @ [config_unnamed]"
  have lt: "(11::nat) < length ?cs" by simp
  from selectQuickPick_choices [where e = ?e and configs = ?cs, THEN conjunct2, THEN conjunct2, rule_format, OF lt]
  obtain ds where
    unique: "\<forall>ds'. is_decimal_of ds' (11 + 1) \<longrightarrow> ds' = ds"
    and entry: "choices_loop ?e ?cs 0 [] ! 11 =
               \<lparr>label = (case name (?cs ! 11) of
                           None \<Rightarrow> ''Configuration #'' @ ds
                         | Some n \<Rightarrow> if n = [] then ''Configuration #'' @ ds else n),
                 detail = JSON_stringify ?e (?cs ! 11),
                 item = ?cs ! 11\<rparr>"
    by (elim exE conjE)
  have "is_decimal_of ''12'' (11 + 1)"
    by (simp add: is_decimal_of_def is_digit_def)
  with unique have ds: "ds = ''12''" by (simp only:)
  have last: "?cs ! 11 = config_unnamed" by (simp add: nth_append)
  show "choices_loop ?e ?cs 0 [] ! 11
     = \<lparr>label = ''Configuration #12'', detail = ''undefined:'', item = config_unnamed\<rparr>"
    unfolding entry last ds by (simp add: sample_env_def config_unnamed_def)
next
  let ?e = "sample_env None [] [] None"
  let ?cs = "[config_X1, config_unnamed, config_blank]"
  note choices = selectQuickPick_choices [where e = ?e and configs = ?cs]
  note entries = choices [THEN conjunct2, THEN conjunct2, rule_format]
  from choices have len: "length (choices_loop ?e ?cs 0 []) = length ?cs"
    by (elim conjE)
  have two: "is_decimal_of ''2'' (1 + 1)" and three: "is_decimal_of ''3'' (2 + 1)"
    by (simp_all add: is_decimal_of_def is_digit_def)
  have "(0::nat) < length ?cs" by simp
  from entries [OF this]
  have e0: "choices_loop ?e ?cs 0 [] ! 0 = \<lparr>label = ''X'', detail = ''X:-ea'', item = config_X1\<rparr>"
    by (auto simp: sample_env_def config_X1_def)
  have "(1::nat) < length ?cs" by simp
  from entries [OF this] obtain ds1 where
    "\<forall>ds'. is_decimal_of ds' (1 + 1) \<longrightarrow> ds' = ds1"
    and entry1: "choices_loop ?e ?cs 0 [] ! 1 =
               \<lparr>label = (case name (?cs ! 1) of
                           None \<Rightarrow> ''Configuration #'' @ ds1
                         | Some n \<Rightarrow> if n = [] then ''Configuration #'' @ ds1 else n),
                 detail = JSON_stringify ?e (?cs ! 1),
                 item = ?cs ! 1\<rparr>"
    by (elim exE conjE)
  with two have ds1: "ds1 = ''2''" by (simp only:)
  have e1: "choices_loop ?e ?cs 0 [] ! 1 =
           \<lparr>label = ''Configuration #2'', detail = ''undefined:'', item = config_unnamed\<rparr>"
    unfolding entry1 ds1 by (simp add: sample_env_def config_unnamed_def)
  have "(2::nat) < length ?cs" by simp
  from entries [OF this] obtain ds2 where
    "\<forall>ds'. is_decimal_of ds' (2 + 1) \<longrightarrow> ds' = ds2"
    and entry2: "choices_loop ?e ?cs 0 [] ! 2 =
               \<lparr>label = (case name (?cs ! 2) of
                           None \<Rightarrow> ''Configuration #'' @ ds2
                         | Some n \<Rightarrow> if n = [] then ''Configuration #'' @ ds2 else n),
                 detail = JSON_stringify ?e (?cs ! 2),
                 item = ?cs ! 2\<rparr>"
    by (elim exE conjE)
  with three have ds2: "ds2 = ''3''" by (simp only:)
  have e2: "choices_loop ?e ?cs 0 [] ! 2 =
           \<lparr>label = ''Configuration #3'', detail = '':-server'', item = config_blank\<rparr>"
    unfolding entry2 ds2 by (simp add: sample_env_def config_blank_def)
  from len e0 e1 e2 show "choices_loop ?e ?cs 0 [] =
     [\<lparr>label = ''X'', detail = ''X:-ea'', item = config_X1\<rparr>,
      \<lparr>label = ''Configuration #2'', detail = ''undefined:'', item = config_unnamed\<rparr>,
      \<lparr>label = ''Configuration #3'', detail = '':-server'', item = config_blank\<rparr>]"
    by (intro nth_equalityI) (auto simp: less_Suc_eq numeral_3_eq_3 numeral_2_eq_2)
qed

section \<open>\<open>loadRunConfig\<close>: no selection, and failures\<close>

text \<open>
  Claim C8. For the manager that the constructor builds and a non-empty sequence of test
  items: if no workspace folder is resolved from the first item, \<open>loadRunConfig\<close>
  returns "none", not an error; if the folder is resolved, the list of the settings is
  absent or empty and the file \<open>.vscode/launch.test.json\<close> under the folder does not
  exist, it returns "none"; and if that file exists and is read, but \<open>JSON.parse\<close>
  throws, the call fails with that very error, with nothing shown and no further
  fallback.
\<close>

theorem loadRunConfig_none_or_fatal:
  "(getWorkspaceFolder e (Uri_parse e (ITestItem.uri t)) = None \<longrightarrow>
      loadRunConfig e (TestConfigManager_new e) (t # ts) isDebug usingDefaultConfig
        = ([], Inr None))
   \<and> (getWorkspaceFolder e (Uri_parse e (ITestItem.uri t)) = Some folder
        \<and> (getConfiguration e (WorkspaceFolder.uri folder) = None
             \<or> getConfiguration e (WorkspaceFolder.uri folder) = Some [])
        \<and> \<not> pathExists e (path_join e (fsPath (WorkspaceFolder.uri folder))
                            (path_join e ''.vscode'' ''launch.test.json'')) \<longrightarrow>
      loadRunConfig e (TestConfigManager_new e) (t # ts) isDebug usingDefaultConfig
        = ([], Inr None))
   \<and> (getWorkspaceFolder e (Uri_parse e (ITestItem.uri t)) = Some folder
        \<and> (getConfiguration e (WorkspaceFolder.uri folder) = None
             \<or> getConfiguration e (WorkspaceFolder.uri folder) = Some [])
        \<and> pathExists e (path_join e (fsPath (WorkspaceFolder.uri folder))
                          (path_join e ''.vscode'' ''launch.test.json''))
        \<and> readFile e (path_join e (fsPath (WorkspaceFolder.uri folder))
                        (path_join e ''.vscode'' ''launch.test.json'')) = Inr content
        \<and> JSON_parse e content = Inl err \<longrightarrow>
      loadRunConfig e (TestConfigManager_new e) (t # ts) isDebug usingDefaultConfig
        = ([], Inl err))"
  by (auto simp: loadRunConfig_def loadDeprecatedConfig_def TestConfigManager_new_def Let_def)

text \<open>
  A test item outside the workspace; a workspace with empty settings and no file; and a
  workspace whose file holds text that does not parse.
\<close>

theorem loadRunConfig_none_or_fatal_witness:
  "loadRunConfig (sample_env None [] [] None) (TestConfigManager_new (sample_env None [] [] None))
     [outside_test] False False = ([], Inr None)
   \<and> loadRunConfig (sample_env (Some []) [] [] None)
        (TestConfigManager_new (sample_env (Some []) [] [] None))
        [sample_test] False False = ([], Inr None)
   \<and> loadRunConfig (sample_env None [(legacy_path, ''{ run: '')] [] None)
        (TestConfigManager_new (sample_env None [(legacy_path, ''{ run: '')] [] None))
        [sample_test] False False = ([], Inl SyntaxError)"
proof -
  have "loadRunConfig (sample_env None [] [] None)
     (TestConfigManager_new (sample_env None [] [] None))
     [outside_test] False False = ([], Inr None)"
    using loadRunConfig_none_or_fatal
      [where e = "sample_env None [] [] None" and t = outside_test and ts = "[]"
        and isDebug = False and usingDefaultConfig = False]
    by (simp add: sample_env_def outside_test_def)
  moreover have "loadRunConfig (sample_env (Some []) [] [] None)
        (TestConfigManager_new (sample_env (Some []) [] [] None))
        [sample_test] False False = ([], Inr None)"
    using loadRunConfig_none_or_fatal
      [where e = "sample_env (Some []) [] [] None" and t = sample_test and ts = "[]"
        and folder = sample_folder and isDebug = False and usingDefaultConfig = False]
    by (simp add: sample_env_def sample_test_def sample_folder_def)
  moreover have "loadRunConfig (sample_env None [(legacy_path, ''{ run: '')] [] None)
        (TestConfigManager_new (sample_env None [(legacy_path, ''{ run: '')] [] None))
        [sample_test] False False = ([], Inl SyntaxError)"
    using loadRunConfig_none_or_fatal
      [where e = "sample_env None [(legacy_path, ''{ run: '')] [] None"
        and t = sample_test and ts = "[]" and folder = sample_folder and content = "''{ run: ''"
        and err = SyntaxError and isDebug = False and usingDefaultConfig = False]
    by (simp add: sample_env_def sample_test_def sample_folder_def legacy_path_def posix_join_def)
  ultimately show ?thesis by blast
qed

text \<open>
  Claim C10. If the deprecated file parses, but the document has no group for the mode
  (no \<open>debug\<close> when \<open>isDebug\<close> is true, no \<open>run\<close> when it is false), then
  \<open>loadRunConfig\<close> does not return "none": it fails with a \<open>TypeError\<close>, with
  \<open>usingDefaultConfig = true\<close> (the read of the default name of the missing group) as
  well as with \<open>usingDefaultConfig = false\<close> (the read of its items).
\<close>

theorem loadRunConfig_missing_group_throws:
  assumes "getWorkspaceFolder e (Uri_parse e (ITestItem.uri t)) = Some folder"
    and "getConfiguration e (WorkspaceFolder.uri folder) = None
           \<or> getConfiguration e (WorkspaceFolder.uri folder) = Some []"
    and "pathExists e (path_join e (fsPath (WorkspaceFolder.uri folder)) (configRelativePath this))"
    and "readFile e (path_join e (fsPath (WorkspaceFolder.uri folder)) (configRelativePath this))
           = Inr content"
    and "JSON_parse e content = Inr deprecatedConfig"
    and "(if isDebug then debug deprecatedConfig else run deprecatedConfig) = None"
  shows "loadRunConfig e this (t # ts) isDebug True = ([], Inl TypeError)
         \<and> loadRunConfig e this (t # ts) isDebug False = ([], Inl TypeError)"
  using assms
  by (auto simp: loadRunConfig_def loadDeprecatedConfig_def selectDeprecatedConfig_def Let_def)

text \<open>A document with a \<open>run\<close> group only, loaded in debug mode.\<close>

theorem loadRunConfig_missing_group_throws_witness:
  "loadRunConfig
     (sample_env None [(legacy_path, ''run only'')] [(''run only'', run_only_document)] None)
     (TestConfigManager_new
        (sample_env None [(legacy_path, ''run only'')] [(''run only'', run_only_document)] None))
     [sample_test] True True = ([], Inl TypeError)
   \<and> loadRunConfig
       (sample_env None [(legacy_path, ''run only'')] [(''run only'', run_only_document)] None)
       (TestConfigManager_new
          (sample_env None [(legacy_path, ''run only'')] [(''run only'', run_only_document)] None))
       [sample_test] True False = ([], Inl TypeError)"
  using loadRunConfig_missing_group_throws
    [where e = "sample_env None [(legacy_path, ''run only'')]
                  [(''run only'', run_only_document)] None"
      and this = "TestConfigManager_new
        (sample_env None [(legacy_path, ''run only'')] [(''run only'', run_only_document)] None)"
      and t = sample_test and ts = "[]" and folder = sample_folder and content = "''run only''"
      and deprecatedConfig = run_only_document and isDebug = True]
  by (simp add: sample_env_def sample_test_def sample_folder_def legacy_path_def posix_join_def
        TestConfigManager_new_def run_only_document_def)

section \<open>Two calls with the same inputs\<close>

text \<open>
  Claim C9. \<open>loadRunConfig\<close> leaves the instance of the class as it found it, and its
  effects and result are those that the arguments and the collaborators' answers
  determine. So of two calls, one after the other, with the same test items, mode and
  flag, and with collaborators that behave the same for both, the second starts from
  the very state in which the first started and has the same effects and the same result
  as the first: nothing that the first call did, a cache or any other state, reaches the
  second.
\<close>

theorem loadRunConfig_no_shared_state:
  "loadRunConfig_st e this tests isDebug usingDefaultConfig
     = (this, loadRunConfig e this tests isDebug usingDefaultConfig)
   \<and> loadRunConfig_twice e this tests isDebug usingDefaultConfig
     = (this, loadRunConfig e this tests isDebug usingDefaultConfig,
        loadRunConfig e this tests isDebug usingDefaultConfig)"
  by (simp add: loadRunConfig_twice_def loadRunConfig_st_eq)

text \<open>
  In the sample workspace with the settings \<open>[X, Y]\<close> and a user who picks the second
  entry, both calls prompt on the same two entries and return \<open>Y\<close>, and the instance
  still holds the path that the constructor gave it.
\<close>

theorem loadRunConfig_no_shared_state_witness:
  "loadRunConfig_twice (sample_env (Some [config_X1, config_Y]) [] [] (Some 1))
     (TestConfigManager_new (sample_env (Some [config_X1, config_Y]) [] [] (Some 1)))
     [sample_test] False False
   = (\<lparr>configRelativePath = ''.vscode/launch.test.json''\<rparr>,
      ([ShowQuickPick
          [\<lparr>label = ''X'', detail = ''X:-ea'', item = config_X1\<rparr>,
           \<lparr>label = ''Y'', detail = ''Y:-Xmx1g'', item = config_Y\<rparr>]
          ''Select test config''],
       Inr (Some config_Y)),
      ([ShowQuickPick
          [\<lparr>label = ''X'', detail = ''X:-ea'', item = config_X1\<rparr>,
           \<lparr>label = ''Y'', detail = ''Y:-Xmx1g'', item = config_Y\<rparr>]
          ''Select test config''],
       Inr (Some config_Y)))"
proof -
  let ?e = "sample_env (Some [config_X1, config_Y]) [] [] (Some 1)"
  have "loadRunConfig ?e (TestConfigManager_new ?e) [sample_test] False False
    = ([ShowQuickPick
          [\<lparr>label = ''X'', detail = ''X:-ea'', item = config_X1\<rparr>,
           \<lparr>label = ''Y'', detail = ''Y:-Xmx1g'', item = config_Y\<rparr>]
          ''Select test config''],
       Inr (Some config_Y))"
    by (simp add: loadRunConfig_def selectQuickPick_def choices_loop_eq quickPick_of_def
          upt_rec [of 0] upt_rec [of 1] upt_rec [of 2] sample_env_def sample_test_def
          sample_folder_def config_X1_def config_Y_def)
  moreover have "TestConfigManager_new ?e = \<lparr>configRelativePath = ''.vscode/launch.test.json''\<rparr>"
    by (simp add: TestConfigManager_new_def sample_env_def posix_join_def)
  ultimately show ?thesis
    using loadRunConfig_no_shared_state [where e = ?e and this = "TestConfigManager_new ?e" and tests = "[sample_test]"
        and isDebug = False and usingDefaultConfig = False]
    by simp
qed

subsection \<open>What a call reads of the outside world\<close>

text \<open>
  The outcome depends on the collaborators only through their answers at the points
  where the call asks: the folder of the first test item; for that folder, the settings,
  the path of the deprecated file, whether it exists and what it holds; the parser, the
  serializer and the user's answers to a prompt. Two worlds that answer alike there give
  the same outcome, however they differ elsewhere.
\<close>

lemma loadRunConfig_frame:
  assumes folder: "owning_folder e1 tests = owning_folder e2 tests"
    and settings: "\<forall>folder. owning_folder e1 tests = Some folder \<longrightarrow>
        getConfiguration e1 (WorkspaceFolder.uri folder)
          = getConfiguration e2 (WorkspaceFolder.uri folder)"
    and store: "\<forall>folder. owning_folder e1 tests = Some folder \<longrightarrow>
        configFullPath_of e1 this folder = configFullPath_of e2 this folder
        \<and> pathExists e1 (configFullPath_of e1 this folder)
             = pathExists e2 (configFullPath_of e1 this folder)
        \<and> readFile e1 (configFullPath_of e1 this folder)
             = readFile e2 (configFullPath_of e1 this folder)"
    and parse: "JSON_parse e1 = JSON_parse e2"
    and stringify: "JSON_stringify e1 = JSON_stringify e2"
    and prompt: "showQuickPick e1 = showQuickPick e2"
  shows "loadRunConfig e1 this tests isDebug usingDefaultConfig
           = loadRunConfig e2 this tests isDebug usingDefaultConfig"
proof (cases tests)
  case Nil
  then show ?thesis by (simp add: loadRunConfig_def)
next
  case (Cons test0 rest)
  show ?thesis
  proof (cases "owning_folder e1 tests")
    case None
    with folder Cons show ?thesis
      by (simp add: loadRunConfig_def owning_folder_def)
  next
    case (Some f)
    from Some settings have s: "getConfiguration e1 (WorkspaceFolder.uri f)
          = getConfiguration e2 (WorkspaceFolder.uri f)" by blast
    from Some store have
      "loadDeprecatedConfig e1 this f isDebug usingDefaultConfig
         = loadDeprecatedConfig e2 this f isDebug usingDefaultConfig"
      by (intro loadDeprecatedConfig_cong stringify prompt parse) blast+
    moreover from Some folder Cons have
      "getWorkspaceFolder e1 (Uri_parse e1 (ITestItem.uri test0)) = Some f"
      "getWorkspaceFolder e2 (Uri_parse e2 (ITestItem.uri test0)) = Some f"
      by (simp_all add: owning_folder_def)
    ultimately show ?thesis
      using Cons s
      by (simp add: loadRunConfig_def selectQuickPick_cong [OF stringify prompt]
            split: option.splits)
  qed
qed

text \<open>
  Two sample workspaces with the same settings and the same user, one of which has a
  file \<open>/ws/notes.txt\<close> that the other has not: the calls agree.
\<close>

lemma loadRunConfig_frame_example:
  "loadRunConfig (sample_env (Some [config_X1, config_Y]) [] [] (Some 1))
     (TestConfigManager_new (sample_env (Some [config_X1, config_Y]) [] [] (Some 1)))
     [sample_test] False False
   = loadRunConfig
       (sample_env (Some [config_X1, config_Y]) [(''/ws/notes.txt'', ''todo'')] [] (Some 1))
       (TestConfigManager_new (sample_env (Some [config_X1, config_Y]) [] [] (Some 1)))
       [sample_test] False False
   \<and> pathExists (sample_env (Some [config_X1, config_Y]) [] [] (Some 1)) ''/ws/notes.txt''
       \<noteq> pathExists
           (sample_env (Some [config_X1, config_Y]) [(''/ws/notes.txt'', ''todo'')] [] (Some 1))
           ''/ws/notes.txt''"
proof -
  let ?e1 = "sample_env (Some [config_X1, config_Y]) [] [] (Some 1)"
  let ?e2 = "sample_env (Some [config_X1, config_Y]) [(''/ws/notes.txt'', ''todo'')] [] (Some 1)"
  have "loadRunConfig ?e1 (TestConfigManager_new ?e1) [sample_test] False False
        = loadRunConfig ?e2 (TestConfigManager_new ?e1) [sample_test] False False"
    by (rule loadRunConfig_frame)
       (simp_all add: sample_env_def owning_folder_def configFullPath_of_def
          TestConfigManager_new_def posix_join_def sample_folder_def)
  moreover have "pathExists ?e1 ''/ws/notes.txt'' \<noteq> pathExists ?e2 ''/ws/notes.txt''"
    by (simp add: sample_env_def)
  ultimately show ?thesis by blast
qed

end
